theory Spec2Isabelle
  imports Main
begin

section \<open>Python strings\<close>

text \<open>
  A Python \<open>str\<close> is modelled as a \<open>string\<close>, one \<open>char\<close> per code point, so
  \<open>length\<close> is Python's \<open>len\<close>. A \<open>char\<close> has 256 values: the model covers the
  strings whose code points are below 256 (ASCII and Latin-1), and the character
  classes below are CPython's restricted to that range.
\<close>

definition is_space :: "char \<Rightarrow> bool" where
  \<comment> \<open>\<open>str.isspace\<close>, which is also what \<open>str.strip()\<close> removes and what \<open>\s\<close> matches:
      U+0009..U+000D, U+001C..U+001F, U+0020, U+0085, U+00A0.\<close>
  "is_space c \<longleftrightarrow> c \<in> set [CHR 0x09, CHR 0x0A, CHR 0x0B, CHR 0x0C, CHR 0x0D,
     CHR 0x1C, CHR 0x1D, CHR 0x1E, CHR 0x1F, CHR 0x20, CHR 0x85, CHR 0xA0]"

definition lstrip :: "string \<Rightarrow> string" where
  "lstrip s = dropWhile is_space s"

definition rstrip :: "string \<Rightarrow> string" where
  "rstrip s = rev (dropWhile is_space (rev s))"

definition strip :: "string \<Rightarrow> string" where
  \<comment> \<open>\<open>s.strip()\<close>\<close>
  "strip s = rstrip (lstrip s)"

fun startswith :: "string \<Rightarrow> string \<Rightarrow> bool" where
  \<comment> \<open>\<open>s.startswith(p)\<close>\<close>
  "startswith s [] = True"
| "startswith [] (p # ps) = False"
| "startswith (c # cs) (p # ps) = (c = p \<and> startswith cs ps)"

function split_str :: "string \<Rightarrow> string \<Rightarrow> string list" where
  \<comment> \<open>\<open>s.split(sep)\<close> for a separator that is not empty (every separator of the
      program is a literal): the pieces between the occurrences of \<open>sep\<close>, found
      from the left without overlap. The argument order is \<open>split_str sep s\<close>.\<close>
  "split_str sep [] = [[]]"
| "split_str sep (c # cs) =
     (if sep \<noteq> [] \<and> startswith (c # cs) sep
      then [] # split_str sep (drop (length sep) (c # cs))
      else (case split_str sep cs of
              [] \<Rightarrow> [[c]]
            | x # xs \<Rightarrow> (c # x) # xs))"
  by pat_completeness auto
termination
  by (relation "measure (\<lambda>(sep, s). length s)") auto

fun join :: "string \<Rightarrow> string list \<Rightarrow> string" where
  \<comment> \<open>\<open>sep.join(xs)\<close>\<close>
  "join sep [] = []"
| "join sep [x] = x"
| "join sep (x # y # ys) = x @ sep @ join sep (y # ys)"

section \<open>text\_chunker.py\<close>

record TextChunker =
  max_tokens :: int
  overlap :: int
  max_chars :: int
  overlap_chars :: int

definition TextChunker_init :: "int \<Rightarrow> int \<Rightarrow> TextChunker" where
  \<comment> \<open>\<open>TextChunker.__init__(max_tokens, overlap)\<close>\<close>
  "TextChunker_init mt ov =
     \<lparr>max_tokens = mt, overlap = ov, max_chars = mt * 4, overlap_chars = ov * 4\<rparr>"

definition estimate_tokens :: "TextChunker \<Rightarrow> string \<Rightarrow> int" where
  "estimate_tokens self text = int (length text) div 4"

definition is_sentence_end :: "char \<Rightarrow> bool" where
  \<comment> \<open>the class \<open>[.!?]\<close>\<close>
  "is_sentence_end c \<longleftrightarrow> c = CHR ''.'' \<or> c = CHR ''!'' \<or> c = CHR ''?''"

function re_split_sentences :: "string \<Rightarrow> string list" where
  \<comment> \<open>\<open>re.split(r'(?<=[.!?])\s+', s)\<close>: a match is a maximal run of white space
      that directly follows one of \<open>. ! ?\<close> (the lookbehind fails inside a run, whose
      previous character is white space); the pieces are what lies between matches.\<close>
  "re_split_sentences [] = [[]]"
| "re_split_sentences (c # cs) =
     (if is_sentence_end c \<and> cs \<noteq> [] \<and> is_space (hd cs)
      then [c] # re_split_sentences (dropWhile is_space cs)
      else (case re_split_sentences cs of
              [] \<Rightarrow> [[c]]
            | x # xs \<Rightarrow> (c # x) # xs))"
  by pat_completeness auto
termination
  by (relation "measure length") (auto simp: length_dropWhile_le less_Suc_eq_le)

text \<open>
  The two loops keep \<open>chunks\<close>, \<open>current_chunk\<close> and \<open>current_length\<close>; the
  functions below take them as arguments and return \<open>chunks\<close> after the flush that
  follows the loop.
\<close>

fun split_loop :: "TextChunker \<Rightarrow> string list \<Rightarrow> string list \<Rightarrow> string list \<Rightarrow> nat \<Rightarrow> string list" where
  \<comment> \<open>the loop of \<open>_split_long_paragraph\<close> over \<open>sentences\<close>\<close>
  "split_loop self [] chunks current_chunk current_length =
     (if current_chunk \<noteq> [] then chunks @ [join '' '' current_chunk] else chunks)"
| "split_loop self (s # ss) chunks current_chunk current_length =
     (let sentence = strip s in
      if sentence = [] then split_loop self ss chunks current_chunk current_length
      else
        let sentence_length = length sentence in
        if int (current_length + sentence_length) > max_chars self \<and> current_chunk \<noteq> []
        then
          let chunks' = chunks @ [join '' '' current_chunk];
              current_chunk' = (if current_chunk \<noteq> [] then [last current_chunk] else []);
              current_length' = (if current_chunk' \<noteq> [] then length (hd current_chunk') else 0)
          in split_loop self ss chunks' (current_chunk' @ [sentence]) (current_length' + sentence_length)
        else split_loop self ss chunks (current_chunk @ [sentence]) (current_length + sentence_length))"

definition split_long_paragraph :: "TextChunker \<Rightarrow> string \<Rightarrow> string list" where
  \<comment> \<open>\<open>_split_long_paragraph\<close>\<close>
  "split_long_paragraph self paragraph =
     split_loop self (re_split_sentences paragraph) [] [] 0"

fun para_loop :: "TextChunker \<Rightarrow> string list \<Rightarrow> string list \<Rightarrow> string list \<Rightarrow> nat \<Rightarrow> string list" where
  \<comment> \<open>the loop of \<open>chunk_by_paragraphs\<close> over \<open>paragraphs\<close>\<close>
  "para_loop self [] chunks current_chunk current_length =
     (if current_chunk \<noteq> [] then chunks @ [join ''\<newline>\<newline>'' current_chunk] else chunks)"
| "para_loop self (p # ps) chunks current_chunk current_length =
     (let para = strip p in
      if para = [] then para_loop self ps chunks current_chunk current_length
      else
        let para_length = length para in
        if int para_length > max_chars self
        then
          let chunks' = (if current_chunk \<noteq> [] then chunks @ [join ''\<newline>\<newline>'' current_chunk] else chunks);
              current_chunk' = (if current_chunk \<noteq> [] then [] else current_chunk);
              current_length' = (if current_chunk \<noteq> [] then 0 else current_length)
          in para_loop self ps (chunks' @ split_long_paragraph self para) current_chunk' current_length'
        else if int (current_length + para_length) > max_chars self \<and> current_chunk \<noteq> []
        then
          let chunks' = chunks @ [join ''\<newline>\<newline>'' current_chunk];
              current_chunk' = (if current_chunk \<noteq> [] then [last current_chunk] else []);
              current_length' = (if current_chunk' \<noteq> [] then length (hd current_chunk') else 0)
          in para_loop self ps chunks' (current_chunk' @ [para]) (current_length' + para_length)
        else para_loop self ps chunks (current_chunk @ [para]) (current_length + para_length))"

definition chunk_by_paragraphs :: "TextChunker \<Rightarrow> string \<Rightarrow> string list" where
  "chunk_by_paragraphs self text =
     para_loop self (split_str ''\<newline>\<newline>'' text) [] [] 0"

definition chunk_text :: "TextChunker \<Rightarrow> string \<Rightarrow> string list" where
  "chunk_text self text =
     (let estimated_tokens = estimate_tokens self text in
      if estimated_tokens \<le> max_tokens self then [text]
      else chunk_by_paragraphs self text)"

section \<open>question\_generator.py\<close>

definition is_digit :: "char \<Rightarrow> bool" where
  \<comment> \<open>\<open>str.isdigit\<close> of one character: \<open>0\<close>..\<open>9\<close> and the superscripts
      U+00B2, U+00B3, U+00B9.\<close>
  "is_digit c \<longleftrightarrow> c \<in> set ''0123456789'' \<or> c \<in> set [CHR 0xB2, CHR 0xB3, CHR 0xB9]"

definition upper_letters :: "string" where
  \<comment> \<open>the characters \<open>str.lower\<close> changes: \<open>A\<close>..\<open>Z\<close>, U+00C0..U+00D6, U+00D8..U+00DE\<close>
  "upper_letters = ''ABCDEFGHIJKLMNOPQRSTUVWXYZ'' @
       [CHR 0xC0, CHR 0xC1, CHR 0xC2, CHR 0xC3, CHR 0xC4, CHR 0xC5, CHR 0xC6, CHR 0xC7,
        CHR 0xC8, CHR 0xC9, CHR 0xCA, CHR 0xCB, CHR 0xCC, CHR 0xCD, CHR 0xCE, CHR 0xCF,
        CHR 0xD0, CHR 0xD1, CHR 0xD2, CHR 0xD3, CHR 0xD4, CHR 0xD5, CHR 0xD6, CHR 0xD8,
        CHR 0xD9, CHR 0xDA, CHR 0xDB, CHR 0xDC, CHR 0xDD, CHR 0xDE]"

definition lower_letters :: "string" where
  \<comment> \<open>their lower-case forms, 32 code points up: \<open>a\<close>..\<open>z\<close>, U+00E0..U+00F6, U+00F8..U+00FE\<close>
  "lower_letters = ''abcdefghijklmnopqrstuvwxyz'' @
       [CHR 0xE0, CHR 0xE1, CHR 0xE2, CHR 0xE3, CHR 0xE4, CHR 0xE5, CHR 0xE6, CHR 0xE7,
        CHR 0xE8, CHR 0xE9, CHR 0xEA, CHR 0xEB, CHR 0xEC, CHR 0xED, CHR 0xEE, CHR 0xEF,
        CHR 0xF0, CHR 0xF1, CHR 0xF2, CHR 0xF3, CHR 0xF4, CHR 0xF5, CHR 0xF6, CHR 0xF8,
        CHR 0xF9, CHR 0xFA, CHR 0xFB, CHR 0xFC, CHR 0xFD, CHR 0xFE]"

definition lower_char :: "char \<Rightarrow> char" where
  \<comment> \<open>\<open>str.lower\<close> of one character\<close>
  "lower_char c = (case map_of (zip upper_letters lower_letters) c of Some l \<Rightarrow> l | None \<Rightarrow> c)"

definition lower :: "string \<Rightarrow> string" where
  \<comment> \<open>\<open>s.lower()\<close>\<close>
  "lower s = map lower_char s"

definition rstrip_chars :: "string \<Rightarrow> string \<Rightarrow> string" where
  \<comment> \<open>\<open>s.rstrip(chars)\<close>, as \<open>rstrip_chars chars s\<close>\<close>
  "rstrip_chars chars s = rev (dropWhile (\<lambda>c. c \<in> set chars) (rev s))"

fun contains :: "string \<Rightarrow> string \<Rightarrow> bool" where
  \<comment> \<open>\<open>sub in s\<close>, as \<open>contains sub s\<close>\<close>
  "contains sub [] = (sub = [])"
| "contains sub (c # cs) = (startswith (c # cs) sub \<or> contains sub cs)"

fun split_once :: "string \<Rightarrow> string \<Rightarrow> string list" where
  \<comment> \<open>\<open>s.split(sep, 1)\<close>, as \<open>split_once sep s\<close>: cut at the first occurrence only\<close>
  "split_once sep [] = [[]]"
| "split_once sep (c # cs) =
     (if sep \<noteq> [] \<and> startswith (c # cs) sep
      then [[], drop (length sep) (c # cs)]
      else (case split_once sep cs of
              [] \<Rightarrow> [[c]]
            | x # xs \<Rightarrow> (c # x) # xs))"

fun str_nat :: "nat \<Rightarrow> string" where
  "str_nat n =
     (if n < 10 then [''0123456789'' ! n]
      else str_nat (n div 10) @ [''0123456789'' ! (n mod 10)])"

definition str_int :: "int \<Rightarrow> string" where
  \<comment> \<open>\<open>str(i)\<close> of an integer\<close>
  "str_int i = (if i < 0 then CHR ''-'' # str_nat (nat (- i)) else str_nat (nat i))"

record questions =
  factual :: "string list"
  conceptual :: "string list"

datatype error = GenerationError

definition create_prompt :: "string \<Rightarrow> int option \<Rightarrow> int option \<Rightarrow> string" where
  "create_prompt document_text chunk_num total_chunks =
     (let chunk_context =
        (case (chunk_num, total_chunks) of
           (Some k, Some n) \<Rightarrow>
             ''\<newline>(Note: This is chunk '' @ str_int k @ '' of '' @ str_int n
               @ '' from a larger document)''
         | _ \<Rightarrow> [])
      in
      ''You are an expert educator creating study questions from academic or educational content.\<newline>'' @
      ''\<newline>'' @
      ''Given the following document'' @ chunk_context @
      '', generate high-quality questions that help students understand and test their comprehension.\<newline>'' @
      ''\<newline>'' @
      ''REQUIREMENTS:\<newline>'' @
      ''1. Generate 5-10 factual questions (who, what, when, where, which)\<newline>'' @
      ''   - These should test recall of specific facts from the document\<newline>'' @
      ''   - Prefer questions with one-word or short answers\<newline>'' @
      ''   \<newline>'' @
      ''2. Generate 3-5 conceptual questions (why, how, explain)\<newline>'' @
      ''   - These should test deeper understanding\<newline>'' @
      ''   - Focus on concepts, relationships, and reasoning\<newline>'' @
      ''\<newline>'' @
      ''3. All questions must:\<newline>'' @
      ''   - Be directly answerable from the document content\<newline>'' @
      ''   - Be grammatically correct and clear\<newline>'' @
      ''   - Not be vague or ambiguous\<newline>'' @
      ''   - Not repeat or be too similar to each other\<newline>'' @
      ''   - Cover different sections/topics in the document\<newline>'' @
      ''\<newline>'' @
      ''4. Format your response EXACTLY as follows:\<newline>'' @
      ''FACTUAL QUESTIONS:\<newline>'' @
      ''1. [Question]\<newline>'' @
      ''2. [Question]\<newline>'' @
      ''...\<newline>'' @
      ''\<newline>'' @
      ''CONCEPTUAL QUESTIONS:\<newline>'' @
      ''1. [Question]\<newline>'' @
      ''2. [Question]\<newline>'' @
      ''...\<newline>'' @
      ''\<newline>'' @
      ''DOCUMENT:\<newline>'' @
      document_text @
      ''\<newline>'' @
      ''\<newline>'' @
      ''Now generate the questions following the format above:'')"

fun extract_loop :: "string list \<Rightarrow> string list \<Rightarrow> string list" where
  \<comment> \<open>either \<open>for line in ..._lines\<close> loop of \<open>parse_response\<close>, appending to the
      list given as second argument\<close>
  "extract_loop [] acc = acc"
| "extract_loop (l # ls) acc =
     (let line = strip l in
      if line \<noteq> [] \<and> (is_digit (hd line) \<or> startswith line ''-'')
      then
        let question = strip (last (split_once '')'' (last (split_once ''.'' line)))) in
        if question \<noteq> [] \<and> length question > 5
        then extract_loop ls (acc @ [question])
        else extract_loop ls acc
      else extract_loop ls acc)"

definition parse_response :: "string \<Rightarrow> questions" where
  "parse_response response_text =
     (let sections = split_str ''CONCEPTUAL QUESTIONS:'' response_text;
          factual_section = (if length sections = 2 then sections ! 0 else response_text);
          conceptual_section = (if length sections = 2 then sections ! 1 else []);
          factual_part = last (split_str ''FACTUAL QUESTIONS:'' factual_section);
          factual_lines = split_str ''\<newline>'' (strip factual_part);
          conceptual_lines = split_str ''\<newline>'' (strip conceptual_section)
      in \<lparr>factual = extract_loop factual_lines [],
          conceptual = extract_loop conceptual_lines []\<rparr>)"

text \<open>
  The generation call is the program's only external collaborator. It is a parameter
  \<open>llm\<close>: the content of the first choice for a prompt, or \<open>None\<close> when the call (or
  reading its result) raises; \<open>generate_from_text\<close> turns every exception into its own.
\<close>

definition generate_from_text ::
  "(string \<Rightarrow> string option) \<Rightarrow> string \<Rightarrow> int option \<Rightarrow> int option \<Rightarrow> error + questions" where
  "generate_from_text llm document_text chunk_num total_chunks =
     (let prompt = create_prompt document_text chunk_num total_chunks in
      case llm prompt of
        None \<Rightarrow> Inl GenerationError
      | Some response_text \<Rightarrow> Inr (parse_response response_text))"

definition normalized :: "string \<Rightarrow> string" where
  \<comment> \<open>\<open>q.lower().strip().rstrip('?')\<close>\<close>
  "normalized q = rstrip_chars ''?'' (strip (lower q))"

fun dedup_loop :: "string list \<Rightarrow> string set \<Rightarrow> string list \<Rightarrow> string list" where
  \<comment> \<open>the loop of \<open>_remove_duplicates\<close>, with \<open>seen\<close> and \<open>unique\<close>\<close>
  "dedup_loop [] seen unique = unique"
| "dedup_loop (q # qs) seen unique =
     (if normalized q \<notin> seen
      then dedup_loop qs (insert (normalized q) seen) (unique @ [q])
      else dedup_loop qs seen unique)"

definition remove_duplicates :: "string list \<Rightarrow> string list" where
  "remove_duplicates qs = dedup_loop qs {} []"

fun chunks_loop ::
  "(string \<Rightarrow> string option) \<Rightarrow> int \<Rightarrow> int \<Rightarrow> string list \<Rightarrow> questions \<Rightarrow> error + questions" where
  \<comment> \<open>the loop of \<open>generate_from_chunks\<close>: \<open>n\<close> is \<open>len(chunks)\<close>, \<open>i\<close> the
      index \<open>enumerate(chunks, 1)\<close> gives\<close>
  "chunks_loop llm n i [] all_questions = Inr all_questions"
| "chunks_loop llm n i (chunk # rest) all_questions =
     (case generate_from_text llm chunk (Some i) (Some n) of
        Inl e \<Rightarrow> Inl e
      | Inr qs \<Rightarrow>
          chunks_loop llm n (i + 1) rest
            \<lparr>factual = factual all_questions @ factual qs,
             conceptual = conceptual all_questions @ conceptual qs\<rparr>)"

definition generate_from_chunks :: "(string \<Rightarrow> string option) \<Rightarrow> string list \<Rightarrow> error + questions" where
  "generate_from_chunks llm chunks =
     (case chunks_loop llm (int (length chunks)) 1 chunks \<lparr>factual = [], conceptual = []\<rparr> of
        Inl e \<Rightarrow> Inl e
      | Inr all_questions \<Rightarrow>
          Inr \<lparr>factual = take 7 (remove_duplicates (factual all_questions)),
               conceptual = take 3 (remove_duplicates (conceptual all_questions))\<rparr>)"

section \<open>main.py\<close>

definition main_questions ::
  "(string \<Rightarrow> string option) \<Rightarrow> int \<Rightarrow> string \<Rightarrow> error + questions" where
  \<comment> \<open>the part of \<open>main\<close> between the cleaned \<open>document_text\<close> and \<open>questions\<close>;
      \<open>max_tokens\<close> is the command line's \<open>--max-tokens\<close>, the overlap the default 200\<close>
  "main_questions llm max_tokens_arg document_text =
     (let chunker = TextChunker_init max_tokens_arg 200;
          chunks = chunk_text chunker document_text
      in if length chunks = 1
         then generate_from_text llm document_text None None
         else generate_from_chunks llm chunks)"

definition no_equal_questions :: "questions \<Rightarrow> bool" where
  \<comment> \<open>the invariant of a question set: in neither list are two entries equal after
      \<open>normalized\<close>\<close>
  "no_equal_questions qs \<longleftrightarrow>
     distinct (map normalized (factual qs)) \<and> distinct (map normalized (conceptual qs))"

section \<open>document\_processor.py\<close>

subsection \<open>Character classes and the regular expressions\<close>

definition is_decimal :: "char \<Rightarrow> bool" where
  \<comment> \<open>what \<open>\d\<close> matches: \<open>0\<close>..\<open>9\<close>\<close>
  "is_decimal c \<longleftrightarrow> c \<in> set ''0123456789''"

definition is_lower :: "char \<Rightarrow> bool" where
  \<comment> \<open>\<open>str.islower\<close> of one character: \<open>a\<close>..\<open>z\<close>, U+00AA, U+00B5, U+00BA,
      U+00DF..U+00F6, U+00F8..U+00FF\<close>
  "is_lower c \<longleftrightarrow> c \<in> set ''abcdefghijklmnopqrstuvwxyz'' \<or> c \<in> set
       [CHR 0xAA, CHR 0xB5, CHR 0xBA, CHR 0xDF, CHR 0xE0, CHR 0xE1, CHR 0xE2, CHR 0xE3,
        CHR 0xE4, CHR 0xE5, CHR 0xE6, CHR 0xE7, CHR 0xE8, CHR 0xE9, CHR 0xEA, CHR 0xEB,
        CHR 0xEC, CHR 0xED, CHR 0xEE, CHR 0xEF, CHR 0xF0, CHR 0xF1, CHR 0xF2, CHR 0xF3,
        CHR 0xF4, CHR 0xF5, CHR 0xF6, CHR 0xF8, CHR 0xF9, CHR 0xFA, CHR 0xFB, CHR 0xFC,
        CHR 0xFD, CHR 0xFE, CHR 0xFF]"

definition is_word :: "char \<Rightarrow> bool" where
  \<comment> \<open>what \<open>\w\<close> matches: the underscore and the alphanumeric characters\<close>
  "is_word c \<longleftrightarrow>
     c \<in> set ''abcdefghijklmnopqrstuvwxyzABCDEFGHIJKLMNOPQRSTUVWXYZ0123456789_'' \<or> c \<in> set
       [CHR 0xAA, CHR 0xB2, CHR 0xB3, CHR 0xB5, CHR 0xB9, CHR 0xBA, CHR 0xBC, CHR 0xBD,
        CHR 0xBE, CHR 0xC0, CHR 0xC1, CHR 0xC2, CHR 0xC3, CHR 0xC4, CHR 0xC5, CHR 0xC6,
        CHR 0xC7, CHR 0xC8, CHR 0xC9, CHR 0xCA, CHR 0xCB, CHR 0xCC, CHR 0xCD, CHR 0xCE,
        CHR 0xCF, CHR 0xD0, CHR 0xD1, CHR 0xD2, CHR 0xD3, CHR 0xD4, CHR 0xD5, CHR 0xD6,
        CHR 0xD8, CHR 0xD9, CHR 0xDA, CHR 0xDB, CHR 0xDC, CHR 0xDD, CHR 0xDE, CHR 0xDF,
        CHR 0xE0, CHR 0xE1, CHR 0xE2, CHR 0xE3, CHR 0xE4, CHR 0xE5, CHR 0xE6, CHR 0xE7,
        CHR 0xE8, CHR 0xE9, CHR 0xEA, CHR 0xEB, CHR 0xEC, CHR 0xED, CHR 0xEE, CHR 0xEF,
        CHR 0xF0, CHR 0xF1, CHR 0xF2, CHR 0xF3, CHR 0xF4, CHR 0xF5, CHR 0xF6, CHR 0xF8,
        CHR 0xF9, CHR 0xFA, CHR 0xFB, CHR 0xFC, CHR 0xFD, CHR 0xFE, CHR 0xFF]"

fun endswith :: "string \<Rightarrow> string \<Rightarrow> bool" where
  \<comment> \<open>\<open>s.endswith(p)\<close>\<close>
  "endswith s p = startswith (rev s) (rev p)"

text \<open>
  The patterns given to \<open>re.match\<close> and \<open>re.search\<close> are sequences of the atoms
  below, all compiled with \<open>re.IGNORECASE\<close>. In each of them a repetition is followed by
  an atom that cannot begin with a character the repetition accepts (white space is
  followed by a letter, a digit, a bar or the end; digits by white space, a bracket, a
  bar or the end), so the backtracking matcher succeeds exactly when the greedy,
  deterministic reading \<open>re_run\<close> does. \<open>re_run\<close> returns the text after the match.
\<close>

datatype atom =
    Lit string      \<comment> \<open>a literal, compared without case\<close>
  | Spaces0         \<comment> \<open>\<open>\s*\<close>\<close>
  | Spaces1         \<comment> \<open>\<open>\s+\<close>\<close>
  | Digits1         \<comment> \<open>\<open>\d+\<close>\<close>
  | DigitsN nat     \<comment> \<open>\<open>\d{n}\<close>\<close>
  | Opt char        \<comment> \<open>\<open>c?\<close>\<close>
  | Eos             \<comment> \<open>\<open>$\<close>: the end, or just before a final newline\<close>

fun re_run :: "atom list \<Rightarrow> string \<Rightarrow> string option" where
  "re_run [] s = Some s"
| "re_run (Lit l # as) s =
     (if length l \<le> length s \<and> lower (take (length l) s) = lower l
      then re_run as (drop (length l) s) else None)"
| "re_run (Spaces0 # as) s = re_run as (dropWhile is_space s)"
| "re_run (Spaces1 # as) s =
     (if s \<noteq> [] \<and> is_space (hd s) then re_run as (dropWhile is_space s) else None)"
| "re_run (Digits1 # as) s =
     (if s \<noteq> [] \<and> is_decimal (hd s) then re_run as (dropWhile is_decimal s) else None)"
| "re_run (DigitsN n # as) s =
     (if n \<le> length s \<and> list_all is_decimal (take n s) then re_run as (drop n s) else None)"
| "re_run (Opt c # as) s =
     (if s \<noteq> [] \<and> lower_char (hd s) = lower_char c then re_run as (tl s) else re_run as s)"
| "re_run (Eos # as) s = (if s = [] \<or> s = ''\<newline>'' then re_run as s else None)"

definition re_match :: "atom list \<Rightarrow> string \<Rightarrow> bool" where
  \<comment> \<open>\<open>re.match(p, s, re.IGNORECASE)\<close> is not \<open>None\<close>\<close>
  "re_match p s \<longleftrightarrow> re_run p s \<noteq> None"

fun re_search :: "atom list \<Rightarrow> string \<Rightarrow> bool" where
  \<comment> \<open>\<open>re.search(p, s, re.IGNORECASE)\<close> is not \<open>None\<close>\<close>
  "re_search p [] = re_match p []"
| "re_search p (c # cs) = (re_match p (c # cs) \<or> re_search p cs)"

subsection \<open>\_remove\_references\_section\<close>

definition ref_patterns :: "string list" where
  \<comment> \<open>the heading \<open>H\<close> of each pattern \<open>\n\s*H\s*\n\<close>, in the order of the source\<close>
  "ref_patterns = [''REFERENCES'', ''References'', ''BIBLIOGRAPHY'', ''Bibliography'', ''WORKS CITED'']"

definition heading_match :: "string \<Rightarrow> string \<Rightarrow> bool" where
  \<comment> \<open>\<open>\n\s*H\s*\n\<close> matches at the start of \<open>s\<close>: a newline, white space up to the
      heading, the heading, then white space that holds a newline\<close>
  "heading_match h s =
     (case s of
        [] \<Rightarrow> False
      | c # r \<Rightarrow>
          c = CHR ''\<newline>'' \<and>
          (case re_run [Spaces0, Lit h] r of
             None \<Rightarrow> False
           | Some r' \<Rightarrow> CHR ''\<newline>'' \<in> set (takeWhile is_space r')))"

fun heading_search :: "string \<Rightarrow> string \<Rightarrow> nat option" where
  \<comment> \<open>\<open>re.search\<close> of the pattern for \<open>h\<close>: \<open>match.start()\<close> of the leftmost match\<close>
  "heading_search h [] = None"
| "heading_search h (c # cs) =
     (if heading_match h (c # cs) then Some 0
      else map_option Suc (heading_search h cs))"

fun refs_loop :: "string list \<Rightarrow> string \<Rightarrow> string" where
  \<comment> \<open>\<open>for pattern in ref_patterns\<close>, with its \<open>break\<close>\<close>
  "refs_loop [] text = text"
| "refs_loop (h # hs) text =
     (case heading_search h text of
        Some k \<Rightarrow> take k text
      | None \<Rightarrow> refs_loop hs text)"

definition remove_references_section :: "string \<Rightarrow> string" where
  "remove_references_section text = refs_loop ref_patterns text"

subsection \<open>\_handle\_two\_column\_format\<close>

function hyphen_fix :: "string \<Rightarrow> string" where
  \<comment> \<open>\<open>re.sub(r'(\w+)-\s*\n\s*(\w+)', r'\1\2', text)\<close>. A match starts in a run of
      word characters and needs the whole rest of the run, then a hyphen, then white
      space that holds a newline, then a word character; it ends with that second run.
      When the run that starts here has no match, no later start in the same run has.\<close>
  "hyphen_fix [] = []"
| "hyphen_fix (c # cs) =
     (if is_word c then
        (let w = takeWhile is_word (c # cs); r = dropWhile is_word (c # cs) in
         case r of
           [] \<Rightarrow> w
         | d # r1 \<Rightarrow>
             (let r2 = dropWhile is_space r1 in
              if d = CHR ''-'' \<and> CHR ''\<newline>'' \<in> set (takeWhile is_space r1)
                 \<and> r2 \<noteq> [] \<and> is_word (hd r2)
              then w @ takeWhile is_word r2 @ hyphen_fix (dropWhile is_word r2)
              else w @ d # hyphen_fix r1))
      else c # hyphen_fix cs)"
  by pat_completeness auto
termination
proof (relation "measure length")
  show "wf (measure length)" by simp
next
  fix c cs w r d r1 r2
  assume "is_word c" and r: "r = dropWhile is_word (c # cs)" and d: "r = d # r1"
    and r2: "r2 = dropWhile is_space r1"
  have "length r \<le> length cs" using r \<open>is_word c\<close> by (simp add: length_dropWhile_le)
  then have l1: "length r1 < length cs" using d by simp
  have "length (dropWhile is_word r2) \<le> length r2" by (rule length_dropWhile_le)
  also have "length r2 \<le> length r1" unfolding r2 by (rule length_dropWhile_le)
  finally show "(dropWhile is_word r2, c # cs) \<in> measure length" using l1 by simp
next
  fix c cs w r d r1 r2
  assume "is_word c" and r: "r = dropWhile is_word (c # cs)" and d: "r = d # r1"
  have "length r \<le> length cs" using r \<open>is_word c\<close> by (simp add: length_dropWhile_le)
  then show "(r1, c # cs) \<in> measure length" using d by simp
next
  fix c :: char and cs :: string
  show "(cs, c # cs) \<in> measure length" by simp
qed

fun column_loop :: "string list \<Rightarrow> string list \<Rightarrow> string list" where
  \<comment> \<open>\<open>for i, line in enumerate(lines)\<close>: the first argument holds \<open>lines[i:]\<close>, so
      \<open>i < len(lines) - 1\<close> says that its tail is not empty; the second is
      \<open>cleaned_lines\<close>\<close>
  "column_loop [] cleaned_lines = cleaned_lines"
| "column_loop (l # rest) cleaned_lines =
     (let line = strip l in
      if length line < 3 then column_loop rest cleaned_lines
      else if rest \<noteq> [] \<and>
              (let next_line = strip (hd rest) in
               line \<noteq> [] \<and> \<not> (endswith line ''.'' \<or> endswith line ''!''
                                \<or> endswith line ''?'' \<or> endswith line '':'')
               \<and> next_line \<noteq> [] \<and> is_lower (hd next_line))
      then column_loop rest cleaned_lines
      else column_loop rest (cleaned_lines @ [line]))"

definition handle_two_column_format :: "string \<Rightarrow> string" where
  "handle_two_column_format text =
     hyphen_fix (join ''\<newline>'' (column_loop (split_str ''\<newline>'' text) []))"

subsection \<open>\_remove\_author\_affiliations\<close>

definition author_patterns :: "atom list list" where
  "author_patterns =
     [[Lit ''@''],
      [Lit ''.edu''],
      [Lit ''.com''],
      [Lit ''Department'', Spaces1, Lit ''of''],
      [Lit ''University'', Spaces1, Lit ''of''],
      [Lit ''Institute'', Spaces1, Lit ''of''],
      [DigitsN 5]]"

definition is_content_line :: "string \<Rightarrow> bool" where
  \<comment> \<open>the test of the first loop: one of the keywords is in \<open>line.lower().strip()\<close>\<close>
  "is_content_line line =
     (let line_lower = strip (lower line) in
      list_ex (\<lambda>keyword. contains keyword line_lower)
        [''abstract'', ''introduction'', ''i. introduction''])"

fun content_start :: "string list \<Rightarrow> nat \<Rightarrow> nat" where
  \<comment> \<open>the first loop over \<open>enumerate(lines)\<close>, from index \<open>i\<close>: the index of the first
      content line, or the initial 0 of \<open>content_start_idx\<close> when there is none\<close>
  "content_start [] i = 0"
| "content_start (line # rest) i =
     (if is_content_line line then i else content_start rest (Suc i))"

fun title_scan :: "string list \<Rightarrow> nat \<Rightarrow> nat option" where
  \<comment> \<open>\<open>for i in range(k - 1, -1, -1)\<close>: the index at which the loop returns, if it does\<close>
  "title_scan lines 0 = None"
| "title_scan lines (Suc i) =
     (let line = strip (lines ! i) in
      if length line > 20 \<and> \<not> list_ex (\<lambda>pattern. re_search pattern line) author_patterns
      then Some i
      else title_scan lines i)"

definition remove_author_affiliations :: "string \<Rightarrow> string" where
  "remove_author_affiliations text =
     (let lines = split_str ''\<newline>'' text;
          content_start_idx = content_start lines 0
      in if content_start_idx > 0
         then (case title_scan lines content_start_idx of
                 Some i \<Rightarrow> join ''\<newline>'' (drop i lines)
               | None \<Rightarrow> text)
         else text)"

subsection \<open>\_remove\_common\_headers\_footers\<close>

definition skip_patterns :: "atom list list" where
  "skip_patterns =
     [[Lit ''Page'', Spaces1, Digits1],
      [Digits1, Spaces0, Eos],
      [Lit ''Copyright'', Spaces1],
      [DigitsN 4, Spaces1, Lit ''IEEE''],
      [Lit ''IEEE'', Spaces1],
      [Lit ''Proceedings'', Spaces1, Lit ''of''],
      [Spaces0, Digits1, Spaces0, Lit ''|'', Spaces0, Lit ''Page''],
      [Lit ''Volume'', Spaces1, Digits1],
      [Lit ''Issue'', Spaces1, Digits1],
      [Lit ''DOI:'', Spaces0],
      [Lit ''http'', Opt CHR ''s'', Lit ''://''],
      [Lit ''www.''],
      [Opt CHR ''['', Digits1, Opt CHR '']'', Spaces0, Eos]]"

fun headers_loop :: "string list \<Rightarrow> string list \<Rightarrow> string list" where
  \<comment> \<open>\<open>for line in lines\<close>, with \<open>cleaned_lines\<close>\<close>
  "headers_loop [] cleaned_lines = cleaned_lines"
| "headers_loop (line # rest) cleaned_lines =
     (let line_stripped = strip line in
      if line_stripped = [] then headers_loop rest cleaned_lines
      else if list_ex (\<lambda>pattern. re_match pattern line_stripped) skip_patterns
      then headers_loop rest cleaned_lines
      else headers_loop rest (cleaned_lines @ [line]))"

definition remove_common_headers_footers :: "string \<Rightarrow> string" where
  "remove_common_headers_footers text =
     join ''\<newline>'' (headers_loop (split_str ''\<newline>'' text) [])"

subsection \<open>\_extract\_main\_sections\<close>

definition main_sections :: "string list" where
  "main_sections =
     [''abstract'', ''introduction'', ''background'', ''related work'', ''methodology'',
      ''method'', ''approach'', ''implementation'', ''experiments'', ''results'',
      ''evaluation'', ''discussion'', ''conclusion'', ''future work'']"

fun sections_loop :: "string list \<Rightarrow> bool \<Rightarrow> string list \<Rightarrow> string list" where
  \<comment> \<open>\<open>for line in lines\<close>, with \<open>in_main_section\<close> and \<open>content_lines\<close>; the
      \<open>break\<close> returns what has been collected\<close>
  "sections_loop [] in_main_section content_lines = content_lines"
| "sections_loop (line # rest) in_main_section content_lines =
     (let line_lower = strip (lower line);
          is_section_header = list_ex (\<lambda>section. contains section line_lower) main_sections
      in if is_section_header
         then sections_loop rest True (content_lines @ [line])
         else if in_main_section
         then (if list_ex (\<lambda>keyword. contains keyword line_lower)
                    [''references'', ''acknowledgment'', ''appendix'']
               then content_lines
               else sections_loop rest in_main_section (content_lines @ [line]))
         else sections_loop rest in_main_section content_lines)"

definition extract_main_sections :: "string \<Rightarrow> string" where
  "extract_main_sections text =
     (let content_lines = sections_loop (split_str ''\<newline>'' text) False []
      in if content_lines \<noteq> [] then join ''\<newline>'' content_lines else text)"

subsection \<open>clean\_text\<close>

function sub_newlines :: "string \<Rightarrow> string" where
  \<comment> \<open>\<open>re.sub(r'\n{3,}', '\n\n', text)\<close>: a maximal run of three or more newlines
      becomes two\<close>
  "sub_newlines [] = []"
| "sub_newlines (c # cs) =
     (if c = CHR ''\<newline>'' then
        (let run = takeWhile (\<lambda>x. x = CHR ''\<newline>'') (c # cs);
             rest = dropWhile (\<lambda>x. x = CHR ''\<newline>'') cs
         in (if length run \<ge> 3 then ''\<newline>\<newline>'' else run) @ sub_newlines rest)
      else c # sub_newlines cs)"
  by pat_completeness auto
termination
  by (relation "measure length") (auto simp: length_dropWhile_le less_Suc_eq_le)

definition is_blank :: "char \<Rightarrow> bool" where
  \<comment> \<open>the class \<open>[ \t]\<close>\<close>
  "is_blank c \<longleftrightarrow> c = CHR '' '' \<or> c = CHR 0x09"

function sub_blanks :: "string \<Rightarrow> string" where
  \<comment> \<open>\<open>re.sub(r'[ \t]+', ' ', text)\<close>: a maximal run of spaces and tabs becomes one
      space\<close>
  "sub_blanks [] = []"
| "sub_blanks (c # cs) =
     (if is_blank c then CHR '' '' # sub_blanks (dropWhile is_blank cs)
      else c # sub_blanks cs)"
  by pat_completeness auto
termination
  by (relation "measure length") (auto simp: length_dropWhile_le less_Suc_eq_le)

function replace_str :: "string \<Rightarrow> string \<Rightarrow> string \<Rightarrow> string" where
  \<comment> \<open>\<open>s.replace(old, new)\<close> for an \<open>old\<close> that is not empty, as
      \<open>replace_str old new s\<close>\<close>
  "replace_str old new [] = []"
| "replace_str old new (c # cs) =
     (if old \<noteq> [] \<and> startswith (c # cs) old
      then new @ replace_str old new (drop (length old) (c # cs))
      else c # replace_str old new cs)"
  by pat_completeness auto
termination
  by (relation "measure (\<lambda>(old, new, s). length s)") auto

function citation_tail :: "string \<Rightarrow> string option" where
  \<comment> \<open>the rest of \<open>\[\d+(?:,\s*\d+)*\]\<close> after \<open>\[\d+\<close>: the closing bracket, or a
      comma, white space and more digits, again; the text after the match\<close>
  "citation_tail [] = None"
| "citation_tail (c # cs) =
     (if c = CHR '']'' then Some cs
      else if c = CHR '','' then
        (let r = dropWhile is_space cs in
         if r \<noteq> [] \<and> is_decimal (hd r) then citation_tail (dropWhile is_decimal r) else None)
      else None)"
  by pat_completeness auto
termination
proof (relation "measure length")
  show "wf (measure length)" by simp
next
  fix c :: char and cs r :: string
  assume r: "r = dropWhile is_space cs"
  have "length (dropWhile is_decimal r) \<le> length r" by (rule length_dropWhile_le)
  also have "length r \<le> length cs" unfolding r by (rule length_dropWhile_le)
  finally show "(dropWhile is_decimal r, c # cs) \<in> measure length" by simp
qed

definition citation_match :: "string \<Rightarrow> string option" where
  \<comment> \<open>\<open>\[\d+(?:,\s*\d+)*\]\<close> at the start of \<open>s\<close>: the text after the match\<close>
  "citation_match s =
     (case s of
        [] \<Rightarrow> None
      | c # cs \<Rightarrow>
          if c = CHR ''['' \<and> cs \<noteq> [] \<and> is_decimal (hd cs)
          then citation_tail (dropWhile is_decimal cs) else None)"

lemma citation_tail_length: "citation_tail s = Some r \<Longrightarrow> length r < length s"
proof (induction s arbitrary: r rule: citation_tail.induct)
  case 1
  then show ?case by simp
next
  case (2 c cs)
  show ?case
  proof (cases "c = CHR '']''")
    case True
    then show ?thesis using "2.prems" by simp
  next
    case False
    let ?d = "dropWhile is_space cs"
    from False "2.prems" have c: "c = CHR '',''" and d: "?d \<noteq> []" "is_decimal (hd ?d)"
      and t: "citation_tail (dropWhile is_decimal ?d) = Some r"
      by (auto simp: Let_def split: if_splits)
    have "length r < length (dropWhile is_decimal ?d)"
      using "2.IH" [OF False c refl] d t by simp
    also have "\<dots> \<le> length ?d" by (rule length_dropWhile_le)
    also have "\<dots> \<le> length cs" by (rule length_dropWhile_le)
    finally show ?thesis by simp
  qed
qed

lemma citation_match_length: "citation_match s = Some r \<Longrightarrow> length r < length s"
proof (cases s)
  case Nil
  then show "citation_match s = Some r \<Longrightarrow> length r < length s"
    by (simp add: citation_match_def)
next
  case (Cons c cs)
  assume "citation_match s = Some r"
  then have "citation_tail (dropWhile is_decimal cs) = Some r"
    using Cons by (simp add: citation_match_def split: if_splits)
  then have "length r < length (dropWhile is_decimal cs)" by (rule citation_tail_length)
  also have "\<dots> \<le> length cs" by (rule length_dropWhile_le)
  finally show "length r < length s" using Cons by simp
qed

function sub_citations :: "string \<Rightarrow> string" where
  \<comment> \<open>\<open>re.sub(r'\[\d+(?:,\s*\d+)*\]', '', text)\<close>\<close>
  "sub_citations [] = []"
| "sub_citations (c # cs) =
     (case citation_match (c # cs) of
        Some r \<Rightarrow> sub_citations r
      | None \<Rightarrow> c # sub_citations cs)"
  by pat_completeness auto
termination
  by (relation "measure length") (auto dest: citation_match_length)

definition mojibake :: "string" where
  \<comment> \<open>the three characters U+00EF, U+00BF, U+00BD of the source's literal\<close>
  "mojibake = [CHR 0xEF, CHR 0xBF, CHR 0xBD]"

definition normalize_text :: "string \<Rightarrow> string" where
  \<comment> \<open>step 6 of \<open>clean_text\<close>\<close>
  "normalize_text text0 =
     (let text = sub_newlines text0;
          text = sub_blanks text;
          lines = map strip (split_str ''\<newline>'' text);
          text = join ''\<newline>'' lines;
          text = strip text;
          text = replace_str mojibake [] text;
          text = sub_citations text
      in text)"

definition clean_text :: "string \<Rightarrow> string" where
  \<comment> \<open>\<open>clean_text\<close>, as a function of \<open>self.raw_text\<close>\<close>
  "clean_text raw_text =
     (let text = remove_references_section raw_text;
          text = handle_two_column_format text;
          text = remove_author_affiliations text;
          text = remove_common_headers_footers text;
          text = extract_main_sections text
      in normalize_text text)"

section \<open>Texts that no stage of the cleaner changes\<close>






definition is_section_header :: "string \<Rightarrow> bool" where
  "is_section_header line \<longleftrightarrow>
     list_ex (\<lambda>section. contains section (strip (lower line))) main_sections"



section \<open>Raw texts that are cleaned in one pass\<close>











section \<open>Properties of the chunker\<close>

lemma split_loop_max_chars:
  "max_chars a = max_chars b \<Longrightarrow>
   split_loop a ss chunks cur n = split_loop b ss chunks cur n"
  by (induction ss arbitrary: chunks cur n) (simp_all add: Let_def)

lemma split_long_paragraph_max_chars:
  "max_chars a = max_chars b \<Longrightarrow> split_long_paragraph a p = split_long_paragraph b p"
  unfolding split_long_paragraph_def by (rule split_loop_max_chars)

lemma para_loop_max_chars:
  "max_chars a = max_chars b \<Longrightarrow>
   para_loop a ps chunks cur n = para_loop b ps chunks cur n"
proof (induction ps arbitrary: chunks cur n)
  case Nil
  show ?case by simp
next
  case (Cons p ps)
  have sl: "split_long_paragraph a (strip p) = split_long_paragraph b (strip p)"
    using Cons.prems by (rule split_long_paragraph_max_chars)
  show ?case
    using Cons.prems by (simp add: Let_def sl Cons.IH)
qed

text \<open>
  C1. A text whose estimated token count (its length divided by 4, rounded down) is at
  most \<open>max_tokens\<close> is returned as the only chunk, unchanged.
\<close>

theorem chunk_text_short_single:
  "int (length text) div 4 \<le> max_tokens self \<Longrightarrow> chunk_text self text = [text]"
  by (simp add: chunk_text_def estimate_tokens_def)

theorem chunk_text_short_single_witness:
  "int (length ''Short text.'') div 4 \<le> max_tokens (TextChunker_init 3000 200)
   \<and> chunk_text (TextChunker_init 3000 200) ''Short text.'' = [''Short text.'']"
proof -
  have h: "int (length ''Short text.'') div 4 \<le> max_tokens (TextChunker_init 3000 200)"
    by (simp add: TextChunker_init_def)
  show ?thesis
    using h chunk_text_short_single [OF h] by simp
qed

text \<open>
  C2. The claim bounds every chunk by \<open>max_tokens\<close> unless a single sentence is too
  long. With \<open>max_tokens = 2\<close> (8 characters) the three paragraphs \<open>Ab.\<close>, \<open>Cd.\<close>
  and \<open>E.\<close> have lengths 3 + 3 + 2 = 8, which the loop accepts as one chunk; joined by
  two blank-line separators the chunk has 12 characters, an estimate of 3 tokens, while
  each of its sentences has at most 3 characters.
\<close>

theorem chunk_text_exceeds_max_tokens:
  "chunk_text (TextChunker_init 2 200) ''Ab.\<newline>\<newline>Cd.\<newline>\<newline>E.'' = [''Ab.\<newline>\<newline>Cd.\<newline>\<newline>E.'']
   \<and> estimate_tokens (TextChunker_init 2 200) ''Ab.\<newline>\<newline>Cd.\<newline>\<newline>E.'' = 3
   \<and> max_tokens (TextChunker_init 2 200) = 2
   \<and> re_split_sentences ''Ab.\<newline>\<newline>Cd.\<newline>\<newline>E.'' = [''Ab.'', ''Cd.'', ''E.'']"
  by (simp add: chunk_text_def TextChunker_init_def estimate_tokens_def
      chunk_by_paragraphs_def strip_def lstrip_def rstrip_def is_space_def
      is_sentence_end_def)

text \<open>
  C3. The claim says the empty string gives no chunk. With the default limit the
  short-text branch returns one chunk, the empty string itself.
\<close>

theorem chunk_text_empty_counterexample:
  "chunk_text (TextChunker_init 3000 200) [] \<noteq> []"
  by (simp add: chunk_text_def TextChunker_init_def estimate_tokens_def)

text \<open>
  C3, amended. For the empty string \<open>chunk_text\<close> returns the one-element sequence
  holding the empty string whenever \<open>max_tokens\<close> is not negative; it returns no
  chunk only under a negative \<open>max_tokens\<close>.
\<close>

theorem chunk_text_empty:
  "chunk_text (TextChunker_init mt ov) [] = (if 0 \<le> mt then [[]] else [])"
  by (simp add: chunk_text_def TextChunker_init_def estimate_tokens_def
      chunk_by_paragraphs_def strip_def lstrip_def rstrip_def)

theorem chunk_text_empty_witness:
  "chunk_text (TextChunker_init 3000 200) [] = [[]]
   \<and> chunk_text (TextChunker_init (- 1) 200) [] = []"
  using chunk_text_empty [of 3000 200] chunk_text_empty [of "- 1" 200] by simp

text \<open>
  C9. The chunks do not depend on the \<open>overlap\<close> parameter: two chunkers with the same
  \<open>max_tokens\<close> return the same sequence for every text.
\<close>

theorem chunk_text_overlap_independent:
  "chunk_text (TextChunker_init mt o1) text = chunk_text (TextChunker_init mt o2) text"
proof -
  have "max_chars (TextChunker_init mt o1) = max_chars (TextChunker_init mt o2)"
    by (simp add: TextChunker_init_def)
  then have "chunk_by_paragraphs (TextChunker_init mt o1) text
      = chunk_by_paragraphs (TextChunker_init mt o2) text"
    unfolding chunk_by_paragraphs_def by (rule para_loop_max_chars)
  then show ?thesis
    by (simp add: chunk_text_def estimate_tokens_def TextChunker_init_def)
qed

section \<open>Properties of the response parser and the question sets\<close>

lemma split_str_absent:
  "sep \<noteq> [] \<Longrightarrow> \<not> contains sep s \<Longrightarrow> split_str sep s = [s]"
  by (induction s) simp_all

lemma extract_loop_blank: "extract_loop [[]] acc = acc"
  by (simp add: strip_def lstrip_def rstrip_def)

text \<open>
  C6. The claim gives the result of \<open>parse_response\<close> on the response with the
  two-character questions \<open>Q1\<close>, \<open>Q2\<close>, \<open>Q3\<close> as these three questions. The parser
  keeps a remainder only when it has more than 5 characters, so it keeps none of them.
\<close>

theorem parse_response_example_counterexample:
  "parse_response
     ''FACTUAL QUESTIONS:\<newline>1. Q1\<newline>2. Q2\<newline>\<newline>CONCEPTUAL QUESTIONS:\<newline>1. Q3''
   \<noteq> \<lparr>factual = [''Q1'', ''Q2''], conceptual = [''Q3'']\<rparr>"
  by (simp add: parse_response_def strip_def lstrip_def rstrip_def is_space_def is_digit_def)

text \<open>
  C6, amended. On the exact response of the claim \<open>parse_response\<close> returns two empty
  lists; on a response of the same form whose three question texts are longer than 5
  characters (\<open>What is X?\<close>, \<open>Who is Y?\<close>, \<open>Why is Z?\<close>) it returns them,
  the first two as factual and the third as conceptual.
\<close>

theorem parse_response_example:
  "parse_response
     ''FACTUAL QUESTIONS:\<newline>1. Q1\<newline>2. Q2\<newline>\<newline>CONCEPTUAL QUESTIONS:\<newline>1. Q3''
   = \<lparr>factual = [], conceptual = []\<rparr>
   \<and> parse_response
     ''FACTUAL QUESTIONS:\<newline>1. What is X?\<newline>2. Who is Y?\<newline>\<newline>CONCEPTUAL QUESTIONS:\<newline>1. Why is Z?''
   = \<lparr>factual = [''What is X?'', ''Who is Y?''], conceptual = [''Why is Z?'']\<rparr>"
  by (simp add: parse_response_def strip_def lstrip_def rstrip_def is_space_def is_digit_def)

text \<open>
  C7. The claim says a response with neither marker gives no question. Without the
  markers the whole response is read as the factual section, and its one enumerated
  line is extracted.
\<close>

theorem parse_response_no_markers_counterexample:
  "\<not> contains ''FACTUAL QUESTIONS:'' ''1. What is the capital?''
   \<and> \<not> contains ''CONCEPTUAL QUESTIONS:'' ''1. What is the capital?''
   \<and> parse_response ''1. What is the capital?'' \<noteq> \<lparr>factual = [], conceptual = []\<rparr>"
  by (simp add: parse_response_def strip_def lstrip_def rstrip_def is_space_def is_digit_def)

text \<open>
  C7, amended. For every response that contains neither marker, \<open>parse_response\<close>
  returns (it is a total function: nothing is raised) an empty conceptual list, and as
  factual list what the line extraction gives on the whole stripped response: the
  remainders, longer than 5 characters, of its lines that begin with a digit or a dash.
\<close>

theorem parse_response_no_markers:
  assumes "\<not> contains ''FACTUAL QUESTIONS:'' r"
    and "\<not> contains ''CONCEPTUAL QUESTIONS:'' r"
  shows "parse_response r =
    \<lparr>factual = extract_loop (split_str ''\<newline>'' (strip r)) [], conceptual = []\<rparr>"
proof -
  have c: "split_str ''CONCEPTUAL QUESTIONS:'' r = [r]"
    using assms(2) by (simp add: split_str_absent)
  have f: "split_str ''FACTUAL QUESTIONS:'' r = [r]"
    using assms(1) by (simp add: split_str_absent)
  have e: "strip [] = []"
    by (simp add: strip_def lstrip_def rstrip_def)
  show ?thesis
    unfolding parse_response_def Let_def c
    by (simp add: f e extract_loop_blank)
qed

theorem parse_response_no_markers_witness:
  "\<not> contains ''FACTUAL QUESTIONS:'' ''1. What is the capital?''
   \<and> \<not> contains ''CONCEPTUAL QUESTIONS:'' ''1. What is the capital?''
   \<and> parse_response ''1. What is the capital?''
     = \<lparr>factual = [''What is the capital?''], conceptual = []\<rparr>"
proof -
  have f: "\<not> contains ''FACTUAL QUESTIONS:'' ''1. What is the capital?''"
    by simp
  have c: "\<not> contains ''CONCEPTUAL QUESTIONS:'' ''1. What is the capital?''"
    by simp
  have e: "extract_loop (split_str ''\<newline>'' (strip ''1. What is the capital?'')) []
      = [''What is the capital?'']"
    by (simp add: strip_def lstrip_def rstrip_def is_space_def is_digit_def)
  show ?thesis
    using f c parse_response_no_markers [OF f c] by (simp add: e)
qed

lemma dedup_loop_distinct:
  "distinct (map normalized unique) \<Longrightarrow> normalized ` set unique \<subseteq> seen \<Longrightarrow>
   distinct (map normalized (dedup_loop qs seen unique))"
proof (induction qs arbitrary: seen unique)
  case Nil
  then show ?case by simp
next
  case (Cons q qs)
  show ?case
  proof (cases "normalized q \<in> seen")
    case True
    then show ?thesis using Cons by simp
  next
    case False
    have d: "distinct (map normalized (unique @ [q]))"
      using False Cons.prems by auto
    have s: "normalized ` set (unique @ [q]) \<subseteq> insert (normalized q) seen"
      using Cons.prems by auto
    show ?thesis
      using False Cons.IH [OF d s] by simp
  qed
qed

lemma remove_duplicates_distinct: "distinct (map normalized (remove_duplicates qs))"
  unfolding remove_duplicates_def by (rule dedup_loop_distinct) simp_all

lemma generate_from_chunks_no_equal_questions:
  "generate_from_chunks llm chunks = Inr qs \<Longrightarrow> no_equal_questions qs"
  by (auto simp: generate_from_chunks_def no_equal_questions_def take_map [symmetric]
      remove_duplicates_distinct split: sum.splits)

text \<open>
  C8. The multi-chunk path removes duplicates (the lemma above); the single-chunk path
  returns the parsed response as it is. For a document of one chunk and a response that
  lists \<open>What is X?\<close> and \<open>what is x?\<close>, \<open>main\<close> obtains a question set whose
  factual list holds both, equal after normalisation.
\<close>

theorem single_chunk_keeps_duplicates:
  "chunk_text (TextChunker_init 3000 200) ''A short document.'' = [''A short document.'']
   \<and> main_questions
        (\<lambda>prompt. Some ''FACTUAL QUESTIONS:\<newline>1. What is X?\<newline>2. what is x?'')
        3000 ''A short document.''
      = Inr \<lparr>factual = [''What is X?'', ''what is x?''], conceptual = []\<rparr>
   \<and> normalized ''What is X?'' = normalized ''what is x?''
   \<and> \<not> no_equal_questions \<lparr>factual = [''What is X?'', ''what is x?''], conceptual = []\<rparr>"
  by (simp add: main_questions_def chunk_text_def estimate_tokens_def TextChunker_init_def
      generate_from_text_def parse_response_def strip_def lstrip_def rstrip_def is_space_def
      is_digit_def no_equal_questions_def normalized_def lower_def lower_char_def
      upper_letters_def lower_letters_def rstrip_chars_def)

section \<open>Properties of the cleaner\<close>

text \<open>
  C4. The claim says that a line without final punctuation whose next line starts in
  lower case keeps its text, joined to the next line. The loop skips such a line with
  \<open>continue\<close> and never adds it: of \<open>The method works\<close> followed by
  \<open>for all inputs.\<close> only the second line is left.
\<close>

theorem two_column_drops_wrapped_line:
  "handle_two_column_format ''The method works\<newline>for all inputs.'' = ''for all inputs.''
   \<and> \<not> contains ''The method works''
         (handle_two_column_format ''The method works\<newline>for all inputs.'')"
  by (simp add: handle_two_column_format_def strip_def lstrip_def rstrip_def is_space_def
      is_lower_def is_word_def)

subsection \<open>The reference section\<close>

lemma refs_loop_skip:
  "list_all (\<lambda>h. heading_search h text = None) pre \<Longrightarrow>
   refs_loop (pre @ rest) text = refs_loop rest text"
  by (induction pre) simp_all

lemma heading_search_Some:
  "heading_search h s = Some k \<Longrightarrow>
   k < length s \<and> heading_match h (drop k s) \<and> (\<forall>j<k. \<not> heading_match h (drop j s))"
proof (induction s arbitrary: k)
  case Nil
  then show ?case by simp
next
  case (Cons c cs)
  show ?case
  proof (cases "heading_match h (c # cs)")
    case True
    then show ?thesis using Cons.prems by simp
  next
    case False
    then obtain k' where k: "heading_search h cs = Some k'" "k = Suc k'"
      using Cons.prems by auto
    have ih: "k' < length cs \<and> heading_match h (drop k' cs)
        \<and> (\<forall>j<k'. \<not> heading_match h (drop j cs))"
      using Cons.IH [OF k(1)] .
    have "\<not> heading_match h (drop j (c # cs))" if "j < k" for j
    proof (cases j)
      case 0
      then show ?thesis using False by simp
    next
      case (Suc j')
      then show ?thesis using that ih k(2) by simp
    qed
    then show ?thesis using ih k(2) by simp
  qed
qed

text \<open>
  C5. The claim says that the text is cut at the first heading line in document order.
  The loop tries the patterns in their fixed order and cuts at the first pattern that
  matches anywhere: with a \<open>BIBLIOGRAPHY\<close> line before a \<open>REFERENCES\<close> line, the
  cut is at \<open>REFERENCES\<close>, and the cleaned text keeps the \<open>BIBLIOGRAPHY\<close> line
  and what follows it.
\<close>

theorem clean_text_references_counterexample:
  "heading_search ''BIBLIOGRAPHY''
     ''Body text here.\<newline>BIBLIOGRAPHY\<newline>Smith wrote it.\<newline>REFERENCES\<newline>Jones too.'' = Some 15
   \<and> heading_search ''REFERENCES''
     ''Body text here.\<newline>BIBLIOGRAPHY\<newline>Smith wrote it.\<newline>REFERENCES\<newline>Jones too.'' = Some 44
   \<and> clean_text
     ''Body text here.\<newline>BIBLIOGRAPHY\<newline>Smith wrote it.\<newline>REFERENCES\<newline>Jones too.''
     = ''Body text here.\<newline>BIBLIOGRAPHY\<newline>Smith wrote it.''"
  by code_simp

text \<open>
  C5, amended. When some pattern matches, the text is cut at the leftmost match of the
  first pattern, in the order \<open>REFERENCES\<close>, \<open>BIBLIOGRAPHY\<close>, \<open>WORKS CITED\<close>,
  that matches anywhere in the text. A match is a newline, white space, the heading in
  any case, and white space that holds a newline. The later stages of \<open>clean_text\<close>
  are applied to the text before that match only.
\<close>

theorem clean_text_references:
  assumes "ref_patterns = pre @ h # post"
    and "list_all (\<lambda>h'. heading_search h' text = None) pre"
    and "heading_search h text = Some k"
  shows "remove_references_section text = take k text
    \<and> k < length text \<and> heading_match h (drop k text)
    \<and> (\<forall>j<k. \<not> heading_match h (drop j text))
    \<and> clean_text text =
        normalize_text (extract_main_sections (remove_common_headers_footers
          (remove_author_affiliations (handle_two_column_format (take k text)))))"
proof -
  have r: "remove_references_section text = take k text"
    unfolding remove_references_section_def assms(1)
    using assms(2,3) by (simp add: refs_loop_skip)
  have c: "clean_text text =
      normalize_text (extract_main_sections (remove_common_headers_footers
        (remove_author_affiliations (handle_two_column_format (take k text)))))"
    unfolding clean_text_def Let_def r ..
  show ?thesis
    using r c heading_search_Some [OF assms(3)] by blast
qed

theorem clean_text_references_witness:
  "ref_patterns = [''REFERENCES'', ''References''] @ ''BIBLIOGRAPHY'' # [''Bibliography'', ''WORKS CITED'']
   \<and> list_all (\<lambda>h'. heading_search h' ''Body text.\<newline>Bibliography\<newline>Smith wrote it.'' = None)
        [''REFERENCES'', ''References'']
   \<and> heading_search ''BIBLIOGRAPHY'' ''Body text.\<newline>Bibliography\<newline>Smith wrote it.'' = Some 10
   \<and> remove_references_section ''Body text.\<newline>Bibliography\<newline>Smith wrote it.'' = ''Body text.''"
proof -
  have a: "ref_patterns = [''REFERENCES'', ''References''] @ ''BIBLIOGRAPHY'' # [''Bibliography'', ''WORKS CITED'']"
    by (simp add: ref_patterns_def)
  have b: "list_all (\<lambda>h'. heading_search h' ''Body text.\<newline>Bibliography\<newline>Smith wrote it.'' = None)
        [''REFERENCES'', ''References'']"
    by code_simp
  have c: "heading_search ''BIBLIOGRAPHY'' ''Body text.\<newline>Bibliography\<newline>Smith wrote it.'' = Some 10"
    by code_simp
  show ?thesis
    using a b c clean_text_references [OF a b c] by simp
qed

subsection \<open>Idempotence\<close>






















lemma join_line: "ls \<noteq> [] \<Longrightarrow> join [a] (l # ls) = l @ a # join [a] ls"
  by (cases ls) simp_all























subsection \<open>The stages on lines\<close>






















subsection \<open>Texts that no stage changes\<close>










subsection \<open>Raw texts with white space, short lines, headers and footers\<close>










end
